theory Spec2Isabelle
  imports Main
begin

section \<open>Values exchanged with the HTTP layer\<close>

text \<open>
  Request bodies and the fields taken out of them are dynamically typed: whatever
  \<^verbatim>\<open>request.get_json()\<close> parsed. The handlers test them for truthiness, compare them and
  subtract them, so the model keeps them as JSON values. Numbers are the integers (a
  JSON number with a fraction is outside the model); an object is the association list of
  its dict, looked up by first binding.
\<close>

datatype json =
    JNull
  | JBool bool
  | JInt int
  | JStr string
  | JArr "json list"
  | JObj "(string \<times> json) list"

datatype py_error = AttributeError | TypeError | KeyError

text \<open>Python's truth value of a parsed JSON value, as used by \<^verbatim>\<open>not x\<close> and \<^verbatim>\<open>all([...])\<close>.\<close>

fun truthy :: "json \<Rightarrow> bool" where
  "truthy JNull = False"
| "truthy (JBool b) = b"
| "truthy (JInt n) = (n \<noteq> 0)"
| "truthy (JStr s) = (s \<noteq> [])"
| "truthy (JArr xs) = (xs \<noteq> [])"
| "truthy (JObj kvs) = (kvs \<noteq> [])"

text \<open>\<^verbatim>\<open>data.get(k)\<close>: None for a missing key; only a dict has the method.\<close>

definition dict_get :: "(string \<times> json) list \<Rightarrow> string \<Rightarrow> json" where
  "dict_get kvs k = (case map_of kvs k of None \<Rightarrow> JNull | Some v \<Rightarrow> v)"

fun py_get :: "json \<Rightarrow> string \<Rightarrow> py_error + json" where
  "py_get (JObj kvs) k = Inr (dict_get kvs k)"
| "py_get _ k = Inl AttributeError"

text \<open>\<^verbatim>\<open>data[k]\<close> with a string key: KeyError on a dict without it, TypeError elsewhere.\<close>

fun py_item :: "json \<Rightarrow> string \<Rightarrow> py_error + json" where
  "py_item (JObj kvs) k = (case map_of kvs k of None \<Rightarrow> Inl KeyError | Some v \<Rightarrow> Inr v)"
| "py_item _ k = Inl TypeError"

text \<open>
  The operand of an integer comparison or subtraction: an int, or a bool (Python's bool
  is an int, True being 1). Every other value makes the operator raise TypeError.
\<close>

fun py_int :: "json \<Rightarrow> int option" where
  "py_int (JInt n) = Some n"
| "py_int (JBool b) = Some (if b then 1 else 0)"
| "py_int _ = None"

definition py_ge :: "int \<Rightarrow> json \<Rightarrow> py_error + bool" where
  "py_ge s v = (case py_int v of None \<Rightarrow> Inl TypeError | Some n \<Rightarrow> Inr (s \<ge> n))"

definition py_sub :: "int \<Rightarrow> json \<Rightarrow> py_error + int" where
  "py_sub s v = (case py_int v of None \<Rightarrow> Inl TypeError | Some n \<Rightarrow> Inr (s - n))"

section \<open>Records of the three stores\<close>

text \<open>
  A book as the seed file gives it: the two fields the services read (\<^verbatim>\<open>"id"\<close>,
  \<^verbatim>\<open>"stock"\<close>), its title, and the remaining descriptive fields untouched.
\<close>

record book =
  b_id :: string
  b_title :: string
  b_stock :: int
  b_other :: "(string \<times> json) list"

record order =
  o_order_id :: string
  o_book_id :: json
  o_quantity :: json
  o_customer :: json
  o_status :: string

record delivery =
  d_delivery_id :: string
  d_order_id :: json
  d_address :: json
  d_status :: string

section \<open>services/inventory\_service.py\<close>

definition get_all_books :: "book list \<Rightarrow> book list" where
  "get_all_books books = books"

text \<open>\<^verbatim>\<open>next((b for b in self.inventory if b["id"] == book_id), None)\<close>: the first match.\<close>

definition get_book :: "book list \<Rightarrow> json \<Rightarrow> book option" where
  "get_book books book_id = find (\<lambda>b. JStr (b_id b) = book_id) books"

text \<open>
  \<^verbatim>\<open>book and book["stock"] >= qty\<close>: None when no book was found (the comparison is not
  evaluated), otherwise the bool of the comparison, which raises on a non-number.
\<close>

definition is_in_stock :: "book list \<Rightarrow> json \<Rightarrow> json \<Rightarrow> py_error + json" where
  "is_in_stock books book_id qty =
     (case get_book books book_id of
        None \<Rightarrow> Inr JNull
      | Some book \<Rightarrow>
          (case py_ge (b_stock book) qty of
             Inl e \<Rightarrow> Inl e
           | Inr r \<Rightarrow> Inr (JBool r)))"

text \<open>
  The book found is an element of the list, changed in place: in the model, the first
  element the predicate holds for is replaced.
\<close>

fun update_first :: "('a \<Rightarrow> bool) \<Rightarrow> ('a \<Rightarrow> 'a) \<Rightarrow> 'a list \<Rightarrow> 'a list" where
  "update_first P f [] = []"
| "update_first P f (x # xs) = (if P x then f x # xs else x # update_first P f xs)"

definition reduce_stock :: "book list \<Rightarrow> json \<Rightarrow> json \<Rightarrow> py_error + book list" where
  "reduce_stock books book_id qty =
     (case get_book books book_id of
        None \<Rightarrow> Inr books
      | Some book \<Rightarrow>
          (case py_sub (b_stock book) qty of
             Inl e \<Rightarrow> Inl e
           | Inr s \<Rightarrow>
               Inr (update_first (\<lambda>b. JStr (b_id b) = book_id) (\<lambda>b. b\<lparr>b_stock := s\<rparr>) books)))"

section \<open>services/sales\_service.py and services/delivery\_service.py\<close>

text \<open>
  The identifier \<^verbatim>\<open>str(uuid.uuid4())\<close> is an input of the model: the string the call
  produced.
\<close>

definition create_order :: "order list \<Rightarrow> json \<Rightarrow> json \<Rightarrow> json \<Rightarrow> string \<Rightarrow> order \<times> order list" where
  "create_order ledger book_id qty customer uid =
     (let order = \<lparr>o_order_id = uid, o_book_id = book_id, o_quantity = qty,
                   o_customer = customer, o_status = ''PAID''\<rparr>
      in (order, ledger @ [order]))"

definition record_delivery :: "delivery list \<Rightarrow> json \<Rightarrow> string \<Rightarrow> py_error + (delivery \<times> delivery list)" where
  "record_delivery deliveries data uid =
     (case py_item data ''order_id'' of
        Inl e \<Rightarrow> Inl e
      | Inr oid \<Rightarrow>
          (case py_item data ''address'' of
             Inl e \<Rightarrow> Inl e
           | Inr addr \<Rightarrow>
               (let d = \<lparr>d_delivery_id = uid, d_order_id = oid, d_address = addr,
                         d_status = ''READY_FOR_DISPATCH''\<rparr>
                in Inr (d, deliveries @ [d]))))"

section \<open>app.py\<close>

text \<open>
  The three service objects \<^verbatim>\<open>inventory\<close>, \<^verbatim>\<open>sales\<close> and \<^verbatim>\<open>delivery\<close> each hold one list,
  loaded from its seed file when the process starts; together they are the state every
  request works on.
\<close>

record state =
  inventory :: "book list"
  sales :: "order list"
  deliveries :: "delivery list"

record response =
  status :: nat
  body :: json

text \<open>A view function returns a response or raises; either way it leaves a state.\<close>

type_synonym outcome = "py_error + response"

text \<open>\<^verbatim>\<open>jsonify\<close> of the dicts the views return.\<close>

definition error_body :: "string \<Rightarrow> json" where
  "error_body msg = JObj [(''error'', JStr msg)]"

definition book_json :: "book \<Rightarrow> json" where
  "book_json b =
     JObj ([(''id'', JStr (b_id b)), (''title'', JStr (b_title b)), (''stock'', JInt (b_stock b))]
           @ b_other b)"

definition order_json :: "order \<Rightarrow> json" where
  "order_json r =
     JObj [(''order_id'', JStr (o_order_id r)), (''book_id'', o_book_id r),
           (''quantity'', o_quantity r), (''customer'', o_customer r),
           (''status'', JStr (o_status r))]"

definition delivery_json :: "delivery \<Rightarrow> json" where
  "delivery_json d =
     JObj [(''delivery_id'', JStr (d_delivery_id d)), (''order_id'', d_order_id d),
           (''address'', d_address d), (''status'', JStr (d_status d))]"

datatype route =
    GET_books
  | GET_book string
  | POST_orders
  | POST_delivery_update
  | GET_root

text \<open>
  What a view reads from the request: the route matched, the \<^verbatim>\<open>x-api-key\<close> header (None
  when absent) and the value \<^verbatim>\<open>request.get_json()\<close> returns.
\<close>

record request =
  route :: route
  x_api_key :: "string option"
  get_json :: json

definition require_api_key ::
  "string \<Rightarrow> (state \<Rightarrow> outcome \<times> state) \<Rightarrow> request \<Rightarrow> state \<Rightarrow> outcome \<times> state" where
  "require_api_key API_KEY func req st =
     (if x_api_key req \<noteq> Some API_KEY
      then (Inr \<lparr>status = 401, body = error_body ''Unauthorized - Invalid API Key''\<rparr>, st)
      else func st)"

definition get_all_books_route :: "state \<Rightarrow> outcome \<times> state" where
  "get_all_books_route st =
     (Inr \<lparr>status = 200, body = JArr (map book_json (get_all_books (inventory st)))\<rparr>, st)"

definition get_book_details :: "state \<Rightarrow> string \<Rightarrow> outcome \<times> state" where
  "get_book_details st book_id =
     (case get_book (inventory st) (JStr book_id) of
        None \<Rightarrow> (Inr \<lparr>status = 404, body = error_body ''Book not found''\<rparr>, st)
      | Some book \<Rightarrow> (Inr \<lparr>status = 200, body = book_json book\<rparr>, st))"

text \<open>
  \<^verbatim>\<open>place_order\<close>, statement by statement. Next to the outcome it gives the states the
  stores go through: the one it starts in, then one more after each statement that
  changes a store (\<^verbatim>\<open>sales.create_order\<close>, then \<^verbatim>\<open>inventory.reduce_stock\<close>).
\<close>

definition place_order_trace :: "state \<Rightarrow> json \<Rightarrow> string \<Rightarrow> outcome \<times> state list" where
  "place_order_trace st data uid =
     (if \<not> truthy data
      then (Inr \<lparr>status = 400, body = error_body ''JSON body is required''\<rparr>, [st])
      else
        case py_get data ''book_id'' of Inl e \<Rightarrow> (Inl e, [st]) | Inr book_id \<Rightarrow>
        case py_get data ''quantity'' of Inl e \<Rightarrow> (Inl e, [st]) | Inr quantity \<Rightarrow>
        case py_get data ''customer'' of Inl e \<Rightarrow> (Inl e, [st]) | Inr customer \<Rightarrow>
        if \<not> (truthy book_id \<and> truthy quantity \<and> truthy customer)
        then (Inr \<lparr>status = 400,
                   body = error_body ''Missing fields: book_id, quantity, customer''\<rparr>, [st])
        else
          case is_in_stock (inventory st) book_id quantity of
            Inl e \<Rightarrow> (Inl e, [st])
          | Inr ok \<Rightarrow>
              if \<not> truthy ok
              then (Inr \<lparr>status = 400, body = error_body ''Insufficient stock''\<rparr>, [st])
              else
                let (order, sales') = create_order (sales st) book_id quantity customer uid;
                    st1 = st\<lparr>sales := sales'\<rparr>
                in case reduce_stock (inventory st1) book_id quantity of
                     Inl e \<Rightarrow> (Inl e, [st, st1])
                   | Inr books' \<Rightarrow>
                       (Inr \<lparr>status = 201, body = order_json order\<rparr>,
                        [st, st1, st1\<lparr>inventory := books'\<rparr>]))"

text \<open>The view itself: the outcome, and the state the stores are left in.\<close>

definition place_order :: "state \<Rightarrow> json \<Rightarrow> string \<Rightarrow> outcome \<times> state" where
  "place_order st data uid =
     (case place_order_trace st data uid of (r, tr) \<Rightarrow> (r, last tr))"

definition update_delivery :: "state \<Rightarrow> json \<Rightarrow> string \<Rightarrow> outcome \<times> state" where
  "update_delivery st data uid =
     (if \<not> truthy data
      then (Inr \<lparr>status = 400, body = error_body ''JSON body is required''\<rparr>, st)
      else
        case py_get data ''order_id'' of Inl e \<Rightarrow> (Inl e, st) | Inr order_id \<Rightarrow>
        case py_get data ''address'' of Inl e \<Rightarrow> (Inl e, st) | Inr address \<Rightarrow>
        if \<not> truthy order_id \<or> \<not> truthy address
        then (Inr \<lparr>status = 400, body = error_body ''Missing fields: order_id, address''\<rparr>, st)
        else
          case record_delivery (deliveries st) data uid of
            Inl e \<Rightarrow> (Inl e, st)
          | Inr (update, deliveries') \<Rightarrow>
              (Inr \<lparr>status = 201, body = delivery_json update\<rparr>, st\<lparr>deliveries := deliveries'\<rparr>))"

definition home :: "state \<Rightarrow> outcome \<times> state" where
  "home st =
     (Inr \<lparr>status = 200, body = JObj [(''message'', JStr ''Bookstore Integration API Running'')]\<rparr>,
      st)"

text \<open>
  The routing table with its decorators: every route but the root is wrapped in
  \<^verbatim>\<open>require_api_key\<close>. \<open>uid\<close> is the identifier \<^verbatim>\<open>uuid.uuid4()\<close> gives if the view asks
  for one.
\<close>

definition dispatch :: "string \<Rightarrow> state \<Rightarrow> request \<Rightarrow> string \<Rightarrow> outcome \<times> state" where
  "dispatch API_KEY st req uid =
     (case route req of
        GET_books \<Rightarrow> require_api_key API_KEY get_all_books_route req st
      | GET_book book_id \<Rightarrow> require_api_key API_KEY (\<lambda>s. get_book_details s book_id) req st
      | POST_orders \<Rightarrow> require_api_key API_KEY (\<lambda>s. place_order s (get_json req) uid) req st
      | POST_delivery_update \<Rightarrow>
          require_api_key API_KEY (\<lambda>s. update_delivery s (get_json req) uid) req st
      | GET_root \<Rightarrow> home st)"

text \<open>
  The process serves its requests one after the other; a request that raised is answered
  with an error by the framework and the next one finds the stores as they were left.
\<close>

fun run :: "string \<Rightarrow> state \<Rightarrow> (request \<times> string) list \<Rightarrow> state" where
  "run API_KEY st [] = st"
| "run API_KEY st ((req, uid) # rest) = run API_KEY (snd (dispatch API_KEY st req uid)) rest"

text \<open>No book of the inventory has a negative stock.\<close>

definition stock_ok :: "state \<Rightarrow> bool" where
  "stock_ok st = list_all (\<lambda>b. 0 \<le> b_stock b) (inventory st)"

section \<open>The inventory store\<close>

lemma get_book_index:
  assumes "get_book books bid = Some b"
  shows "\<exists>i<length books. books ! i = b \<and> JStr (b_id b) = bid \<and> (\<forall>j<i. JStr (b_id (books ! j)) \<noteq> bid)"
  using assms unfolding get_book_def by (auto simp: find_Some_iff)

lemma update_first_nth:
  assumes "i < length xs" "P (xs ! i)" "\<forall>j<i. \<not> P (xs ! j)"
  shows "update_first P f xs = xs[i := f (xs ! i)]"
  using assms
proof (induction xs arbitrary: i)
  case Nil
  then show ?case by simp
next
  case (Cons x xs)
  show ?case
  proof (cases i)
    case 0
    with Cons.prems show ?thesis by simp
  next
    case (Suc k)
    from Cons.prems Suc have nx: "\<not> P x" by auto
    from Cons.prems Suc have "k < length xs" "P (xs ! k)" "\<forall>j<k. \<not> P (xs ! j)" by auto
    from Cons.IH[OF this] nx Suc show ?thesis by simp
  qed
qed





section \<open>The paths through \<^verbatim>\<open>place_order\<close>\<close>

text \<open>
  The three ways the view ends once the body is a non-empty dict: a field is missing or
  falsy, the stock check fails, or the order is created and the stock reduced.
\<close>

lemma place_order_trace_missing:
  assumes "kvs \<noteq> []"
    and "\<not> (truthy (dict_get kvs ''book_id'') \<and> truthy (dict_get kvs ''quantity'')
            \<and> truthy (dict_get kvs ''customer''))"
  shows "place_order_trace st (JObj kvs) uid =
           (Inr \<lparr>status = 400, body = error_body ''Missing fields: book_id, quantity, customer''\<rparr>, [st])"
  using assms by (simp add: place_order_trace_def)

lemma place_order_trace_insufficient:
  assumes "kvs \<noteq> []"
    and "truthy (dict_get kvs ''book_id'')" "truthy (dict_get kvs ''quantity'')"
        "truthy (dict_get kvs ''customer'')"
    and "is_in_stock (inventory st) (dict_get kvs ''book_id'') (dict_get kvs ''quantity'') = Inr ok"
    and "\<not> truthy ok"
  shows "place_order_trace st (JObj kvs) uid =
           (Inr \<lparr>status = 400, body = error_body ''Insufficient stock''\<rparr>, [st])"
  using assms by (simp add: place_order_trace_def)

lemma place_order_trace_created:
  assumes "kvs \<noteq> []"
    and "truthy (dict_get kvs ''book_id'')" "truthy (dict_get kvs ''quantity'')"
        "truthy (dict_get kvs ''customer'')"
    and "get_book (inventory st) (dict_get kvs ''book_id'') = Some b"
    and "py_int (dict_get kvs ''quantity'') = Some n" and "n \<le> b_stock b"
  shows "place_order_trace st (JObj kvs) uid =
           (let order = \<lparr>o_order_id = uid, o_book_id = dict_get kvs ''book_id'',
                          o_quantity = dict_get kvs ''quantity'',
                          o_customer = dict_get kvs ''customer'', o_status = ''PAID''\<rparr>;
                st1 = st\<lparr>sales := sales st @ [order]\<rparr>
            in (Inr \<lparr>status = 201, body = order_json order\<rparr>,
                [st, st1,
                 st1\<lparr>inventory := update_first (\<lambda>x. JStr (b_id x) = dict_get kvs ''book_id'')
                                       (\<lambda>x. x\<lparr>b_stock := b_stock b - n\<rparr>) (inventory st)\<rparr>]))"
  using assms
  by (simp add: place_order_trace_def is_in_stock_def py_ge_def create_order_def
      reduce_stock_def py_sub_def Let_def)

lemma truthy_data_cases:
  assumes "truthy data"
  shows "(\<exists>kvs. data = JObj kvs \<and> kvs \<noteq> []) \<or> (\<forall>k. py_get data k = Inl AttributeError)"
  using assms by (cases data) auto

text \<open>
  A 201 is only ever answered on the third path, and every other path leaves the stores
  alone.
\<close>

lemma place_order_trace_201:
  assumes "place_order_trace st data uid = (Inr r, tr)" and "status r = 201"
  shows "\<exists>kvs b n. data = JObj kvs \<and> kvs \<noteq> []
           \<and> truthy (dict_get kvs ''book_id'') \<and> truthy (dict_get kvs ''quantity'')
           \<and> truthy (dict_get kvs ''customer'')
           \<and> get_book (inventory st) (dict_get kvs ''book_id'') = Some b
           \<and> py_int (dict_get kvs ''quantity'') = Some n \<and> n \<le> b_stock b"
proof -
  from assms have td: "truthy data"
    by (auto simp: place_order_trace_def split: if_splits)
  with assms truthy_data_cases[OF td] obtain kvs where kvs: "data = JObj kvs" "kvs \<noteq> []"
    by (auto simp: place_order_trace_def)
  from assms kvs have f: "truthy (dict_get kvs ''book_id'')" "truthy (dict_get kvs ''quantity'')"
    "truthy (dict_get kvs ''customer'')"
    by (auto simp: place_order_trace_def split: if_splits)
  from assms kvs f obtain ok where ok: "is_in_stock (inventory st) (dict_get kvs ''book_id'') (dict_get kvs ''quantity'') = Inr ok" "truthy ok"
    by (auto simp: place_order_trace_def split: if_splits sum.splits)
  then obtain b n where "get_book (inventory st) (dict_get kvs ''book_id'') = Some b"
    "py_int (dict_get kvs ''quantity'') = Some n" "n \<le> b_stock b"
    by (auto simp: is_in_stock_def py_ge_def split: option.splits)
  with kvs f show ?thesis by blast
qed

lemma place_order_trace_states:
  "(\<exists>r. place_order_trace st data uid = (r, [st]))
   \<or> (\<exists>kvs b n. data = JObj kvs \<and> kvs \<noteq> []
           \<and> truthy (dict_get kvs ''book_id'') \<and> truthy (dict_get kvs ''quantity'')
           \<and> truthy (dict_get kvs ''customer'')
           \<and> get_book (inventory st) (dict_get kvs ''book_id'') = Some b
           \<and> py_int (dict_get kvs ''quantity'') = Some n \<and> n \<le> b_stock b)"
proof (cases "truthy data")
  case False
  then show ?thesis by (simp add: place_order_trace_def)
next
  case True
  from truthy_data_cases[OF True] show ?thesis
  proof
    assume "\<forall>k. py_get data k = Inl AttributeError"
    with True show ?thesis by (simp add: place_order_trace_def)
  next
    assume "\<exists>kvs. data = JObj kvs \<and> kvs \<noteq> []"
    then obtain kvs where kvs: "data = JObj kvs" "kvs \<noteq> []" by blast
    show ?thesis
    proof (cases "get_book (inventory st) (dict_get kvs ''book_id'')")
      case None
      with kvs show ?thesis by (simp add: place_order_trace_def is_in_stock_def)
    next
      case (Some b)
      show ?thesis
      proof (cases "py_int (dict_get kvs ''quantity'')")
        case None
        with kvs Some show ?thesis
          by (simp add: place_order_trace_def is_in_stock_def py_ge_def)
      next
        case (Some n)
        with kvs \<open>get_book (inventory st) (dict_get kvs ''book_id'') = Some b\<close> show ?thesis
          by (cases "n \<le> b_stock b") (simp_all add: place_order_trace_def is_in_stock_def py_ge_def)
      qed
    qed
  qed
qed



text \<open>
  C2. For a body with its three fields present and truthy, when no book has the
  identifier or the quantity is a number above the stock of the book found,
  \<^verbatim>\<open>place_order\<close> answers 400 with the error "Insufficient stock" and the whole state is as
  before: no order, no change of stock.
\<close>

theorem place_order_insufficient:
  assumes "truthy (dict_get kvs ''book_id'')" and "truthy (dict_get kvs ''quantity'')"
    and "truthy (dict_get kvs ''customer'')"
    and "get_book (inventory st) (dict_get kvs ''book_id'') = None
         \<or> (\<exists>b n. get_book (inventory st) (dict_get kvs ''book_id'') = Some b
                \<and> py_int (dict_get kvs ''quantity'') = Some n \<and> b_stock b < n)"
  shows "place_order st (JObj kvs) uid =
           (Inr \<lparr>status = 400, body = JObj [(''error'', JStr ''Insufficient stock'')]\<rparr>, st)"
proof -
  from assms(1) have ne: "kvs \<noteq> []" by (auto simp: dict_get_def)
  from assms(4) obtain ok where
    "is_in_stock (inventory st) (dict_get kvs ''book_id'') (dict_get kvs ''quantity'') = Inr ok"
    "\<not> truthy ok"
    by (auto simp: is_in_stock_def py_ge_def)
  from place_order_trace_insufficient[OF ne assms(1-3) this, of uid]
  show ?thesis by (simp add: place_order_def error_body_def)
qed

theorem place_order_insufficient_witness:
  "place_order \<lparr>inventory = [\<lparr>b_id = ''b1'', b_title = ''T'', b_stock = 5, b_other = []\<rparr>], sales = [], deliveries = []\<rparr> (JObj [(''book_id'', JStr ''b1''), (''quantity'', JInt 6), (''customer'', JStr ''alice'')]) ''u2''
     = (Inr \<lparr>status = 400, body = JObj [(''error'', JStr ''Insufficient stock'')]\<rparr>, \<lparr>inventory = [\<lparr>b_id = ''b1'', b_title = ''T'', b_stock = 5, b_other = []\<rparr>], sales = [], deliveries = []\<rparr>)
   \<and> place_order \<lparr>inventory = [\<lparr>b_id = ''b1'', b_title = ''T'', b_stock = 5, b_other = []\<rparr>], sales = [], deliveries = []\<rparr> (JObj [(''book_id'', JStr ''zz''), (''quantity'', JInt 1), (''customer'', JStr ''alice'')]) ''u3''
     = (Inr \<lparr>status = 400, body = JObj [(''error'', JStr ''Insufficient stock'')]\<rparr>, \<lparr>inventory = [\<lparr>b_id = ''b1'', b_title = ''T'', b_stock = 5, b_other = []\<rparr>], sales = [], deliveries = []\<rparr>)"
proof -
  have 1: "get_book (inventory \<lparr>inventory = [\<lparr>b_id = ''b1'', b_title = ''T'', b_stock = 5, b_other = []\<rparr>], sales = [], deliveries = []\<rparr>) (dict_get [(''book_id'', JStr ''zz''), (''quantity'', JInt 1), (''customer'', JStr ''alice'')] ''book_id'') = None
           \<or> (\<exists>b n. get_book (inventory \<lparr>inventory = [\<lparr>b_id = ''b1'', b_title = ''T'', b_stock = 5, b_other = []\<rparr>], sales = [], deliveries = []\<rparr>) (dict_get [(''book_id'', JStr ''zz''), (''quantity'', JInt 1), (''customer'', JStr ''alice'')] ''book_id'') = Some b
                  \<and> py_int (dict_get [(''book_id'', JStr ''zz''), (''quantity'', JInt 1), (''customer'', JStr ''alice'')] ''quantity'') = Some n \<and> b_stock b < n)"
    by (simp add: get_book_def dict_get_def)
  have 2: "get_book (inventory \<lparr>inventory = [\<lparr>b_id = ''b1'', b_title = ''T'', b_stock = 5, b_other = []\<rparr>], sales = [], deliveries = []\<rparr>) (dict_get [(''book_id'', JStr ''b1''), (''quantity'', JInt 6), (''customer'', JStr ''alice'')] ''book_id'') = None
           \<or> (\<exists>b n. get_book (inventory \<lparr>inventory = [\<lparr>b_id = ''b1'', b_title = ''T'', b_stock = 5, b_other = []\<rparr>], sales = [], deliveries = []\<rparr>) (dict_get [(''book_id'', JStr ''b1''), (''quantity'', JInt 6), (''customer'', JStr ''alice'')] ''book_id'') = Some b
                  \<and> py_int (dict_get [(''book_id'', JStr ''b1''), (''quantity'', JInt 6), (''customer'', JStr ''alice'')] ''quantity'') = Some n \<and> b_stock b < n)"
    by (simp add: get_book_def dict_get_def)
  have "place_order \<lparr>inventory = [\<lparr>b_id = ''b1'', b_title = ''T'', b_stock = 5, b_other = []\<rparr>], sales = [], deliveries = []\<rparr> (JObj [(''book_id'', JStr ''zz''), (''quantity'', JInt 1), (''customer'', JStr ''alice'')]) ''u3'' = (Inr \<lparr>status = 400, body = JObj [(''error'', JStr ''Insufficient stock'')]\<rparr>, \<lparr>inventory = [\<lparr>b_id = ''b1'', b_title = ''T'', b_stock = 5, b_other = []\<rparr>], sales = [], deliveries = []\<rparr>)"
    by (rule place_order_insufficient[OF _ _ _ 1]) (simp_all add: dict_get_def)
  moreover have "place_order \<lparr>inventory = [\<lparr>b_id = ''b1'', b_title = ''T'', b_stock = 5, b_other = []\<rparr>], sales = [], deliveries = []\<rparr> (JObj [(''book_id'', JStr ''b1''), (''quantity'', JInt 6), (''customer'', JStr ''alice'')]) ''u2'' = (Inr \<lparr>status = 400, body = JObj [(''error'', JStr ''Insufficient stock'')]\<rparr>, \<lparr>inventory = [\<lparr>b_id = ''b1'', b_title = ''T'', b_stock = 5, b_other = []\<rparr>], sales = [], deliveries = []\<rparr>)"
    by (rule place_order_insufficient[OF _ _ _ 2]) (simp_all add: dict_get_def)
  ultimately show ?thesis by simp
qed

text \<open>
  C7. A request for a book that does not exist and a request for more than the stock of
  a book that does get the same response, 400 with "Insufficient stock": nothing in it
  tells the two causes apart.
\<close>

theorem place_order_same_error:
  assumes "truthy (dict_get kvs1 ''book_id'')" "truthy (dict_get kvs1 ''quantity'')"
          "truthy (dict_get kvs1 ''customer'')"
    and "get_book (inventory st1) (dict_get kvs1 ''book_id'') = None"
    and "truthy (dict_get kvs2 ''book_id'')" "truthy (dict_get kvs2 ''quantity'')"
        "truthy (dict_get kvs2 ''customer'')"
    and "get_book (inventory st2) (dict_get kvs2 ''book_id'') = Some b"
    and "py_int (dict_get kvs2 ''quantity'') = Some n" and "b_stock b < n"
  shows "fst (place_order st1 (JObj kvs1) uid1) = fst (place_order st2 (JObj kvs2) uid2)
         \<and> fst (place_order st1 (JObj kvs1) uid1)
             = Inr \<lparr>status = 400, body = JObj [(''error'', JStr ''Insufficient stock'')]\<rparr>"
proof -
  from assms(1) have ne1: "kvs1 \<noteq> []" by (auto simp: dict_get_def)
  from assms(5) have ne2: "kvs2 \<noteq> []" by (auto simp: dict_get_def)
  have 1: "is_in_stock (inventory st1) (dict_get kvs1 ''book_id'') (dict_get kvs1 ''quantity'')
             = Inr JNull"
    using assms(4) by (simp add: is_in_stock_def)
  have 2: "is_in_stock (inventory st2) (dict_get kvs2 ''book_id'') (dict_get kvs2 ''quantity'')
             = Inr (JBool False)"
    using assms(8-10) by (simp add: is_in_stock_def py_ge_def)
  from place_order_trace_insufficient[OF ne1 assms(1-3) 1, of uid1]
    place_order_trace_insufficient[OF ne2 assms(5-7) 2, of uid2]
  show ?thesis by (simp add: place_order_def error_body_def)
qed

theorem place_order_same_error_witness:
  "fst (place_order \<lparr>inventory = [\<lparr>b_id = ''b1'', b_title = ''T'', b_stock = 5, b_other = []\<rparr>], sales = [], deliveries = []\<rparr> (JObj [(''book_id'', JStr ''zz''), (''quantity'', JInt 1), (''customer'', JStr ''alice'')]) ''u3'') = fst (place_order \<lparr>inventory = [\<lparr>b_id = ''b1'', b_title = ''T'', b_stock = 5, b_other = []\<rparr>], sales = [], deliveries = []\<rparr> (JObj [(''book_id'', JStr ''b1''), (''quantity'', JInt 6), (''customer'', JStr ''alice'')]) ''u2'')
   \<and> fst (place_order \<lparr>inventory = [\<lparr>b_id = ''b1'', b_title = ''T'', b_stock = 5, b_other = []\<rparr>], sales = [], deliveries = []\<rparr> (JObj [(''book_id'', JStr ''zz''), (''quantity'', JInt 1), (''customer'', JStr ''alice'')]) ''u3'') = Inr \<lparr>status = 400, body = JObj [(''error'', JStr ''Insufficient stock'')]\<rparr>"
proof -
  have 1: "get_book (inventory \<lparr>inventory = [\<lparr>b_id = ''b1'', b_title = ''T'', b_stock = 5, b_other = []\<rparr>], sales = [], deliveries = []\<rparr>) (dict_get [(''book_id'', JStr ''zz''), (''quantity'', JInt 1), (''customer'', JStr ''alice'')] ''book_id'') = None"
    by (simp add: get_book_def dict_get_def)
  have 2: "get_book (inventory \<lparr>inventory = [\<lparr>b_id = ''b1'', b_title = ''T'', b_stock = 5, b_other = []\<rparr>], sales = [], deliveries = []\<rparr>) (dict_get [(''book_id'', JStr ''b1''), (''quantity'', JInt 6), (''customer'', JStr ''alice'')] ''book_id'') = Some \<lparr>b_id = ''b1'', b_title = ''T'', b_stock = 5, b_other = []\<rparr>"
    by (simp add: get_book_def dict_get_def)
  have 3: "py_int (dict_get [(''book_id'', JStr ''b1''), (''quantity'', JInt 6), (''customer'', JStr ''alice'')] ''quantity'') = Some 6" by (simp add: dict_get_def)
  show ?thesis
    by (rule place_order_same_error[OF _ _ _ 1 _ _ _ 2 3]) (simp_all add: dict_get_def)
qed

text \<open>
  C10. When one of \<^verbatim>\<open>book_id\<close>, \<^verbatim>\<open>quantity\<close>, \<^verbatim>\<open>customer\<close> is in the body with a falsy
  value (0, the empty string, ...), \<^verbatim>\<open>place_order\<close> answers 400 with the "Missing fields"
  error and leaves the state alone; a non-empty body without the field gets the very same
  outcome.
\<close>

theorem place_order_falsy_field:
  assumes "k \<in> {''book_id'', ''quantity'', ''customer''}"
    and "map_of kvs k = Some v" and "\<not> truthy v"
  shows "place_order st (JObj kvs) uid =
           (Inr \<lparr>status = 400,
                 body = JObj [(''error'', JStr ''Missing fields: book_id, quantity, customer'')]\<rparr>, st)
         \<and> (kvs' \<noteq> [] \<and> map_of kvs' k = None \<longrightarrow>
              place_order st (JObj kvs') uid' = place_order st (JObj kvs) uid)"
proof -
  from assms(2) have ne: "kvs \<noteq> []" by auto
  from assms have "\<not> truthy (dict_get kvs k)" by (simp add: dict_get_def)
  with assms(1) have "\<not> (truthy (dict_get kvs ''book_id'') \<and> truthy (dict_get kvs ''quantity'')
            \<and> truthy (dict_get kvs ''customer''))" by auto
  from place_order_trace_missing[OF ne this, of st uid]
  have 1: "place_order st (JObj kvs) uid =
           (Inr \<lparr>status = 400,
                 body = JObj [(''error'', JStr ''Missing fields: book_id, quantity, customer'')]\<rparr>, st)"
    by (simp add: place_order_def error_body_def)
  have 2: "place_order st (JObj kvs') uid' = place_order st (JObj kvs) uid"
    if "kvs' \<noteq> []" "map_of kvs' k = None"
  proof -
    from that(2) have "\<not> truthy (dict_get kvs' k)" by (simp add: dict_get_def)
    with assms(1) have "\<not> (truthy (dict_get kvs' ''book_id'') \<and> truthy (dict_get kvs' ''quantity'')
            \<and> truthy (dict_get kvs' ''customer''))" by auto
    from place_order_trace_missing[OF that(1) this, of st uid'] 1 show ?thesis
      by (simp add: place_order_def error_body_def)
  qed
  from 1 2 show ?thesis by blast
qed

theorem place_order_falsy_field_witness:
  "place_order \<lparr>inventory = [\<lparr>b_id = ''b1'', b_title = ''T'', b_stock = 5, b_other = []\<rparr>], sales = [], deliveries = []\<rparr> (JObj [(''book_id'', JStr ''b1''), (''quantity'', JInt 0), (''customer'', JStr ''alice'')]) ''u1'' = (Inr \<lparr>status = 400, body = JObj [(''error'', JStr ''Missing fields: book_id, quantity, customer'')]\<rparr>, \<lparr>inventory = [\<lparr>b_id = ''b1'', b_title = ''T'', b_stock = 5, b_other = []\<rparr>], sales = [], deliveries = []\<rparr>)
   \<and> place_order \<lparr>inventory = [\<lparr>b_id = ''b1'', b_title = ''T'', b_stock = 5, b_other = []\<rparr>], sales = [], deliveries = []\<rparr> (JObj [(''book_id'', JStr ''b1''), (''customer'', JStr ''alice'')]) ''u2''
     = place_order \<lparr>inventory = [\<lparr>b_id = ''b1'', b_title = ''T'', b_stock = 5, b_other = []\<rparr>], sales = [], deliveries = []\<rparr> (JObj [(''book_id'', JStr ''b1''), (''quantity'', JInt 0), (''customer'', JStr ''alice'')]) ''u1''"
  using place_order_falsy_field [where k = "''quantity''" and kvs = "[(''book_id'', JStr ''b1''), (''quantity'', JInt 0), (''customer'', JStr ''alice'')]" and v = "JInt 0"
      and kvs' = "[(''book_id'', JStr ''b1''), (''customer'', JStr ''alice'')]"
      and st = "\<lparr>inventory = [\<lparr>b_id = ''b1'', b_title = ''T'', b_stock = 5, b_other = []\<rparr>], sales = [], deliveries = []\<rparr>" and uid = "''u1''" and uid' = "''u2''"]
  by simp

section \<open>The quantity of a recorded order\<close>

text \<open>
  C4, as stated, fails: the view only rejects a falsy quantity, so with a stock of 5 an
  order for -2 copies is accepted, recorded with quantity -2, and the stock goes up to 7.
\<close>

theorem place_order_negative_quantity:
  "place_order \<lparr>inventory = [\<lparr>b_id = ''b1'', b_title = ''T'', b_stock = 5, b_other = []\<rparr>],
                 sales = [], deliveries = []\<rparr>
     (JObj [(''book_id'', JStr ''b1''), (''quantity'', JInt (- 2)), (''customer'', JStr ''alice'')])
     ''u1''
   = (Inr \<lparr>status = 201,
           body = JObj [(''order_id'', JStr ''u1''), (''book_id'', JStr ''b1''),
                        (''quantity'', JInt (- 2)), (''customer'', JStr ''alice''),
                        (''status'', JStr ''PAID'')]\<rparr>,
      \<lparr>inventory = [\<lparr>b_id = ''b1'', b_title = ''T'', b_stock = 7, b_other = []\<rparr>],
       sales = [\<lparr>o_order_id = ''u1'', o_book_id = JStr ''b1'', o_quantity = JInt (- 2),
                 o_customer = JStr ''alice'', o_status = ''PAID''\<rparr>],
       deliveries = []\<rparr>)
   \<and> \<not> (0::int) < - 2"
  by (simp add: place_order_def place_order_trace_def dict_get_def is_in_stock_def get_book_def
      py_ge_def create_order_def reduce_stock_def py_sub_def order_json_def Let_def)

text \<open>
  C4, amended. Every order \<^verbatim>\<open>place_order\<close> appends has a quantity that is a number other
  than zero and at most the stock the book had when the order was placed.
\<close>

theorem place_order_quantity_nonzero:
  assumes "place_order st data uid = (Inr r, st')" and "status r = 201"
  shows "\<exists>ord b n. sales st' = sales st @ [ord] \<and> body r = order_json ord
           \<and> py_int (o_quantity ord) = Some n \<and> n \<noteq> 0
           \<and> get_book (inventory st) (o_book_id ord) = Some b \<and> n \<le> b_stock b"
proof -
  from assms(1) have tr: "place_order_trace st data uid = (Inr r, snd (place_order_trace st data uid))"
    by (simp add: place_order_def split: prod.splits)
  from place_order_trace_201[OF tr assms(2)] obtain kvs b n where h: "data = JObj kvs" "kvs \<noteq> []"
      "truthy (dict_get kvs ''book_id'')" "truthy (dict_get kvs ''quantity'')"
      "truthy (dict_get kvs ''customer'')"
      "get_book (inventory st) (dict_get kvs ''book_id'') = Some b"
      "py_int (dict_get kvs ''quantity'') = Some n" "n \<le> b_stock b" by blast
  from h(4,7) have nz: "n \<noteq> 0" by (cases "dict_get kvs ''quantity''") (auto split: if_splits)
  from place_order_trace_created[OF h(2-8), of uid] assms(1) h(1)
  have "sales st' = sales st @ [\<lparr>o_order_id = uid, o_book_id = dict_get kvs ''book_id'',
                          o_quantity = dict_get kvs ''quantity'',
                          o_customer = dict_get kvs ''customer'', o_status = ''PAID''\<rparr>]"
    and "body r = order_json \<lparr>o_order_id = uid, o_book_id = dict_get kvs ''book_id'',
                          o_quantity = dict_get kvs ''quantity'',
                          o_customer = dict_get kvs ''customer'', o_status = ''PAID''\<rparr>"
    by (auto simp: place_order_def Let_def)
  with h nz show ?thesis by force
qed

theorem place_order_quantity_nonzero_witness:
  "\<exists>ord b n. sales \<lparr>inventory = [\<lparr>b_id = ''b1'', b_title = ''T'', b_stock = 0, b_other = []\<rparr>], sales = [\<lparr>o_order_id = ''u1'', o_book_id = JStr ''b1'', o_quantity = JInt 5, o_customer = JStr ''alice'', o_status = ''PAID''\<rparr>], deliveries = []\<rparr> = sales \<lparr>inventory = [\<lparr>b_id = ''b1'', b_title = ''T'', b_stock = 5, b_other = []\<rparr>], sales = [], deliveries = []\<rparr> @ [ord]
       \<and> py_int (o_quantity ord) = Some n \<and> n \<noteq> 0
       \<and> get_book (inventory \<lparr>inventory = [\<lparr>b_id = ''b1'', b_title = ''T'', b_stock = 5, b_other = []\<rparr>], sales = [], deliveries = []\<rparr>) (o_book_id ord) = Some b \<and> n \<le> b_stock b"
proof -
  have h: "place_order \<lparr>inventory = [\<lparr>b_id = ''b1'', b_title = ''T'', b_stock = 5, b_other = []\<rparr>], sales = [], deliveries = []\<rparr> (JObj [(''book_id'', JStr ''b1''), (''quantity'', JInt 5), (''customer'', JStr ''alice'')]) ''u1''
             = (Inr \<lparr>status = 201, body = order_json \<lparr>o_order_id = ''u1'', o_book_id = JStr ''b1'', o_quantity = JInt 5, o_customer = JStr ''alice'', o_status = ''PAID''\<rparr>\<rparr>, \<lparr>inventory = [\<lparr>b_id = ''b1'', b_title = ''T'', b_stock = 0, b_other = []\<rparr>], sales = [\<lparr>o_order_id = ''u1'', o_book_id = JStr ''b1'', o_quantity = JInt 5, o_customer = JStr ''alice'', o_status = ''PAID''\<rparr>], deliveries = []\<rparr>)"
    by (simp add: place_order_def place_order_trace_def dict_get_def is_in_stock_def get_book_def
      py_ge_def create_order_def reduce_stock_def py_sub_def Let_def)
  from place_order_quantity_nonzero[OF h] show ?thesis by auto
qed

section \<open>The order of the two writes\<close>

text \<open>
  C6. A successful \<^verbatim>\<open>place_order\<close> goes through exactly three states: the one it starts
  in, one where the order is in the ledger and the inventory is still untouched, and the
  final one where the stock has changed as well. In every state it goes through, either the
  inventory is the initial one or the order is recorded.
\<close>

theorem create_order_before_reduce_stock:
  assumes "place_order_trace st data uid = (Inr r, tr)" and "status r = 201"
  shows "\<exists>ord s1 s2. tr = [st, s1, s2] \<and> place_order st data uid = (Inr r, s2)
           \<and> sales s1 = sales st @ [ord] \<and> inventory s1 = inventory st
           \<and> sales s2 = sales s1 \<and> inventory s2 \<noteq> inventory st
           \<and> list_all (\<lambda>t. inventory t = inventory st \<or> sales t = sales st @ [ord]) tr"
proof -
  from place_order_trace_201[OF assms] obtain kvs b n where h: "data = JObj kvs" "kvs \<noteq> []"
      "truthy (dict_get kvs ''book_id'')" "truthy (dict_get kvs ''quantity'')"
      "truthy (dict_get kvs ''customer'')"
      "get_book (inventory st) (dict_get kvs ''book_id'') = Some b"
      "py_int (dict_get kvs ''quantity'') = Some n" "n \<le> b_stock b" by blast
  from h(4,7) have nz: "n \<noteq> 0" by (cases "dict_get kvs ''quantity''") (auto split: if_splits)
  from get_book_index[OF h(6)] obtain i where i: "i < length (inventory st)"
    "inventory st ! i = b" "JStr (b_id b) = dict_get kvs ''book_id''"
    "\<forall>j<i. JStr (b_id (inventory st ! j)) \<noteq> dict_get kvs ''book_id''" by blast
  define books' where "books' = update_first (\<lambda>x. JStr (b_id x) = dict_get kvs ''book_id'')
                                       (\<lambda>x. x\<lparr>b_stock := b_stock b - n\<rparr>) (inventory st)"
  have "books' = (inventory st)[i := b\<lparr>b_stock := b_stock b - n\<rparr>]"
    unfolding books'_def
    using update_first_nth[of i "inventory st" "\<lambda>x. JStr (b_id x) = dict_get kvs ''book_id''"
        "\<lambda>x. x\<lparr>b_stock := b_stock b - n\<rparr>"] i by simp
  with i(1) have "books' ! i = b\<lparr>b_stock := b_stock b - n\<rparr>" by simp
  with nz have "b_stock (books' ! i) \<noteq> b_stock (inventory st ! i)" using i(2) by simp
  then have ne: "books' \<noteq> inventory st" by auto
  define ord where "ord = \<lparr>o_order_id = uid, o_book_id = dict_get kvs ''book_id'',
                          o_quantity = dict_get kvs ''quantity'',
                          o_customer = dict_get kvs ''customer'', o_status = ''PAID''\<rparr>"
  from place_order_trace_created[OF h(2-8), of uid] assms(1) h(1)
  have tr: "tr = [st, st\<lparr>sales := sales st @ [ord]\<rparr>,
                  st\<lparr>sales := sales st @ [ord], inventory := books'\<rparr>]"
    by (simp add: Let_def ord_def books'_def)
  with assms(1) have po: "place_order st data uid
                     = (Inr r, st\<lparr>sales := sales st @ [ord], inventory := books'\<rparr>)"
    by (simp add: place_order_def)
  show ?thesis
    apply (rule exI[of _ ord])
    apply (rule exI[of _ "st\<lparr>sales := sales st @ [ord]\<rparr>"])
    apply (rule exI[of _ "st\<lparr>sales := sales st @ [ord], inventory := books'\<rparr>"])
    using tr po ne by simp
qed

theorem create_order_before_reduce_stock_witness:
  "\<exists>ord s1 s2.
      snd (place_order_trace \<lparr>inventory = [\<lparr>b_id = ''b1'', b_title = ''T'', b_stock = 5, b_other = []\<rparr>], sales = [], deliveries = []\<rparr> (JObj [(''book_id'', JStr ''b1''), (''quantity'', JInt 5), (''customer'', JStr ''alice'')]) ''u1'') = [\<lparr>inventory = [\<lparr>b_id = ''b1'', b_title = ''T'', b_stock = 5, b_other = []\<rparr>], sales = [], deliveries = []\<rparr>, s1, s2]
      \<and> sales s1 = sales \<lparr>inventory = [\<lparr>b_id = ''b1'', b_title = ''T'', b_stock = 5, b_other = []\<rparr>], sales = [], deliveries = []\<rparr> @ [ord] \<and> inventory s1 = inventory \<lparr>inventory = [\<lparr>b_id = ''b1'', b_title = ''T'', b_stock = 5, b_other = []\<rparr>], sales = [], deliveries = []\<rparr>
      \<and> sales s2 = sales s1 \<and> inventory s2 \<noteq> inventory \<lparr>inventory = [\<lparr>b_id = ''b1'', b_title = ''T'', b_stock = 5, b_other = []\<rparr>], sales = [], deliveries = []\<rparr>"
proof -
  have h: "place_order_trace \<lparr>inventory = [\<lparr>b_id = ''b1'', b_title = ''T'', b_stock = 5, b_other = []\<rparr>], sales = [], deliveries = []\<rparr> (JObj [(''book_id'', JStr ''b1''), (''quantity'', JInt 5), (''customer'', JStr ''alice'')]) ''u1''
             = (Inr \<lparr>status = 201, body = order_json \<lparr>o_order_id = ''u1'', o_book_id = JStr ''b1'', o_quantity = JInt 5, o_customer = JStr ''alice'', o_status = ''PAID''\<rparr>\<rparr>,
                [\<lparr>inventory = [\<lparr>b_id = ''b1'', b_title = ''T'', b_stock = 5, b_other = []\<rparr>], sales = [], deliveries = []\<rparr>, \<lparr>inventory = [\<lparr>b_id = ''b1'', b_title = ''T'', b_stock = 5, b_other = []\<rparr>], sales = [\<lparr>o_order_id = ''u1'', o_book_id = JStr ''b1'', o_quantity = JInt 5, o_customer = JStr ''alice'', o_status = ''PAID''\<rparr>], deliveries = []\<rparr>, \<lparr>inventory = [\<lparr>b_id = ''b1'', b_title = ''T'', b_stock = 0, b_other = []\<rparr>], sales = [\<lparr>o_order_id = ''u1'', o_book_id = JStr ''b1'', o_quantity = JInt 5, o_customer = JStr ''alice'', o_status = ''PAID''\<rparr>], deliveries = []\<rparr>])"
    by (simp add: place_order_trace_def dict_get_def is_in_stock_def get_book_def
      py_ge_def create_order_def reduce_stock_def py_sub_def Let_def)
  from create_order_before_reduce_stock[OF h] h show ?thesis by auto
qed

section \<open>The API key\<close>

text \<open>
  C8. On every route but the root, a request whose \<^verbatim>\<open>x-api-key\<close> header is absent or is
  not the configured key is answered 401 "Unauthorized - Invalid API Key" and the three
  stores stay as they were; the root route answers 200 whatever the header.
\<close>

theorem unauthorized_no_effect:
  "(route req \<noteq> GET_root \<and> x_api_key req \<noteq> Some API_KEY \<longrightarrow>
      dispatch API_KEY st req uid =
        (Inr \<lparr>status = 401, body = JObj [(''error'', JStr ''Unauthorized - Invalid API Key'')]\<rparr>, st))
   \<and> dispatch API_KEY st (req\<lparr>route := GET_root\<rparr>) uid =
        (Inr \<lparr>status = 200, body = JObj [(''message'', JStr ''Bookstore Integration API Running'')]\<rparr>,
         st)"
  by (cases "route req") (simp_all add: dispatch_def require_api_key_def home_def error_body_def)

theorem unauthorized_no_effect_witness:
  "dispatch ''k'' \<lparr>inventory = [\<lparr>b_id = ''b1'', b_title = ''T'', b_stock = 5, b_other = []\<rparr>], sales = [], deliveries = []\<rparr> \<lparr>route = POST_orders, x_api_key = Some ''wrong'', get_json = JObj [(''book_id'', JStr ''b1''), (''quantity'', JInt 5), (''customer'', JStr ''alice'')]\<rparr> ''u1'' = (Inr \<lparr>status = 401, body = JObj [(''error'', JStr ''Unauthorized - Invalid API Key'')]\<rparr>, \<lparr>inventory = [\<lparr>b_id = ''b1'', b_title = ''T'', b_stock = 5, b_other = []\<rparr>], sales = [], deliveries = []\<rparr>)
   \<and> dispatch ''k'' \<lparr>inventory = [\<lparr>b_id = ''b1'', b_title = ''T'', b_stock = 5, b_other = []\<rparr>], sales = [], deliveries = []\<rparr> \<lparr>route = GET_books, x_api_key = None, get_json = JNull\<rparr> ''u1'' = (Inr \<lparr>status = 401, body = JObj [(''error'', JStr ''Unauthorized - Invalid API Key'')]\<rparr>, \<lparr>inventory = [\<lparr>b_id = ''b1'', b_title = ''T'', b_stock = 5, b_other = []\<rparr>], sales = [], deliveries = []\<rparr>)"
  using unauthorized_no_effect [of "\<lparr>route = POST_orders, x_api_key = Some ''wrong'', get_json = JObj [(''book_id'', JStr ''b1''), (''quantity'', JInt 5), (''customer'', JStr ''alice'')]\<rparr>" "''k''" "\<lparr>inventory = [\<lparr>b_id = ''b1'', b_title = ''T'', b_stock = 5, b_other = []\<rparr>], sales = [], deliveries = []\<rparr>" "''u1''"]
    unauthorized_no_effect [of "\<lparr>route = GET_books, x_api_key = None, get_json = JNull\<rparr>" "''k''" "\<lparr>inventory = [\<lparr>b_id = ''b1'', b_title = ''T'', b_stock = 5, b_other = []\<rparr>], sales = [], deliveries = []\<rparr>" "''u1''"]
  by simp

section \<open>Stock never goes negative\<close>

lemma update_first_stock_ok:
  assumes "list_all (\<lambda>b. 0 \<le> b_stock b) books" and "0 \<le> s"
  shows "list_all (\<lambda>b. 0 \<le> b_stock b) (update_first P (\<lambda>x. x\<lparr>b_stock := s\<rparr>) books)"
  using assms by (induction books) auto

lemma place_order_stock_ok:
  assumes "stock_ok st"
  shows "stock_ok (snd (place_order st data uid))"
proof -
  from place_order_trace_states[of st data uid] show ?thesis
  proof
    assume "\<exists>r. place_order_trace st data uid = (r, [st])"
    with assms show ?thesis by (auto simp: place_order_def)
  next
    assume "\<exists>kvs b n. data = JObj kvs \<and> kvs \<noteq> []
           \<and> truthy (dict_get kvs ''book_id'') \<and> truthy (dict_get kvs ''quantity'')
           \<and> truthy (dict_get kvs ''customer'')
           \<and> get_book (inventory st) (dict_get kvs ''book_id'') = Some b
           \<and> py_int (dict_get kvs ''quantity'') = Some n \<and> n \<le> b_stock b"
    then obtain kvs b n where h: "data = JObj kvs" "kvs \<noteq> []"
      "truthy (dict_get kvs ''book_id'')" "truthy (dict_get kvs ''quantity'')"
      "truthy (dict_get kvs ''customer'')"
      "get_book (inventory st) (dict_get kvs ''book_id'') = Some b"
      "py_int (dict_get kvs ''quantity'') = Some n" "n \<le> b_stock b" by blast
    from assms have "list_all (\<lambda>b. 0 \<le> b_stock b) (inventory st)" by (simp add: stock_ok_def)
    from update_first_stock_ok[OF this, of "b_stock b - n"] h(8)
    have "list_all (\<lambda>b. 0 \<le> b_stock b)
            (update_first (\<lambda>x. JStr (b_id x) = dict_get kvs ''book_id'')
               (\<lambda>x. x\<lparr>b_stock := b_stock b - n\<rparr>) (inventory st))" by simp
    with place_order_trace_created[OF h(2-8), of uid] h(1) show ?thesis
      by (simp add: place_order_def stock_ok_def Let_def)
  qed
qed

lemma update_delivery_inventory: "inventory (snd (update_delivery st data uid)) = inventory st"
  by (auto simp: update_delivery_def split: sum.splits prod.splits)

lemma dispatch_stock_ok:
  assumes "stock_ok st"
  shows "stock_ok (snd (dispatch API_KEY st req uid))"
proof (cases "route req")
  case POST_orders
  with assms place_order_stock_ok[OF assms] show ?thesis
    by (simp add: dispatch_def require_api_key_def)
next
  case POST_delivery_update
  with assms update_delivery_inventory[of st "get_json req" uid] show ?thesis
    by (simp add: dispatch_def require_api_key_def stock_ok_def)
next
  case GET_books
  with assms show ?thesis
    by (simp add: dispatch_def require_api_key_def get_all_books_route_def)
next
  case (GET_book x)
  with assms show ?thesis
    by (simp add: dispatch_def require_api_key_def get_book_details_def split: option.splits)
next
  case GET_root
  with assms show ?thesis by (simp add: dispatch_def home_def)
qed

text \<open>
  C3. Starting from stores in which no stock is negative, no sequence of requests, on
  any route, with any header and body, leads to a state with a negative stock.
\<close>

theorem run_stock_ok:
  assumes "stock_ok st"
  shows "stock_ok (run API_KEY st reqs)"
  using assms
proof (induction reqs arbitrary: st)
  case Nil
  then show ?case by simp
next
  case (Cons a reqs)
  obtain req uid where a: "a = (req, uid)" by (cases a)
  from Cons.prems have "stock_ok (snd (dispatch API_KEY st req uid))" by (rule dispatch_stock_ok)
  from Cons.IH[OF this] a show ?case by simp
qed

theorem run_stock_ok_witness:
  "stock_ok \<lparr>inventory = [\<lparr>b_id = ''b1'', b_title = ''T'', b_stock = 5, b_other = []\<rparr>], sales = [], deliveries = []\<rparr>
   \<and> stock_ok (run ''k'' \<lparr>inventory = [\<lparr>b_id = ''b1'', b_title = ''T'', b_stock = 5, b_other = []\<rparr>], sales = [], deliveries = []\<rparr>
        [(\<lparr>route = POST_orders, x_api_key = Some ''k'', get_json = JObj [(''book_id'', JStr ''b1''), (''quantity'', JInt 5), (''customer'', JStr ''alice'')]\<rparr>, ''u1''), (\<lparr>route = POST_orders, x_api_key = Some ''k'', get_json = JObj [(''book_id'', JStr ''b1''), (''quantity'', JInt 5), (''customer'', JStr ''alice'')]\<rparr>, ''u2''), (\<lparr>route = POST_orders, x_api_key = Some ''k'', get_json = JObj [(''book_id'', JStr ''b1''), (''quantity'', JInt (- 3)), (''customer'', JStr ''alice'')]\<rparr>, ''u3''), (\<lparr>route = GET_books, x_api_key = Some ''k'', get_json = JNull\<rparr>, ''u4'')])"
proof -
  have h: "stock_ok \<lparr>inventory = [\<lparr>b_id = ''b1'', b_title = ''T'', b_stock = 5, b_other = []\<rparr>], sales = [], deliveries = []\<rparr>" by (simp add: stock_ok_def)
  show ?thesis by (intro conjI) (rule h, rule run_stock_ok[OF h])
qed

end
